theory Spec2Isabelle
  imports Complex_Main
begin

section \<open>The CCS reporter of elk: a model of \<open>elk/training/ccs_reporter.py\<close>\<close>

text \<open>
  The reporter is orchestration code over PyTorch and over collaborators of the
  package that are not part of the file (the loss registry \<open>LOSSES\<close>, the projector
  \<open>SpectralNorm\<close>, the \<open>Normalizer\<close>, the auxiliary \<open>Classifier\<close> and the metric
  \<open>roc_auc\<close>). Those are parameters of the model, collected in the record \<open>env\<close>.
  Everything the file itself does (indexing, slicing, the loss formula, the training
  loops, the restarts, the error paths) is written out.

  Numbers: tensor entries are real numbers (rounding is not modelled); a Python float
  that the control flow inspects (a loss) is a \<open>pyfloat\<close>, which also has the two
  infinities and NaN.
\<close>

subsection \<open>Exceptions and Python floats\<close>

datatype error =
  ValueError | RuntimeError | IndexError | AssertionError | TypeError | AttributeError | KeyError

datatype pyfloat = Finite real | PosInf | NegInf | NaN

text \<open>\<open>a < b\<close> on floats: false as soon as one side is NaN.\<close>

fun float_lt :: "pyfloat \<Rightarrow> pyfloat \<Rightarrow> bool" where
  "float_lt NaN _ = False"
| "float_lt _ NaN = False"
| "float_lt (Finite a) (Finite b) = (a < b)"
| "float_lt (Finite a) PosInf = True"
| "float_lt (Finite a) NegInf = False"
| "float_lt PosInf _ = False"
| "float_lt NegInf NegInf = False"
| "float_lt NegInf _ = True"

text \<open>\<open>math.isfinite\<close>.\<close>

fun isfinite :: "pyfloat \<Rightarrow> bool" where
  "isfinite (Finite a) = True"
| "isfinite _ = False"

text \<open>Addition and multiplication with the IEEE rules for the special values.\<close>

fun fadd :: "pyfloat \<Rightarrow> pyfloat \<Rightarrow> pyfloat" where
  "fadd NaN _ = NaN"
| "fadd _ NaN = NaN"
| "fadd (Finite a) (Finite b) = Finite (a + b)"
| "fadd (Finite a) PosInf = PosInf"
| "fadd (Finite a) NegInf = NegInf"
| "fadd PosInf NegInf = NaN"
| "fadd PosInf _ = PosInf"
| "fadd NegInf PosInf = NaN"
| "fadd NegInf _ = NegInf"

text \<open>A finite factor times a float (the weights \<open>alpha\<close> and \<open>1 - alpha\<close>).\<close>

fun fscale :: "real \<Rightarrow> pyfloat \<Rightarrow> pyfloat" where
  "fscale c (Finite a) = Finite (c * a)"
| "fscale c NaN = NaN"
| "fscale c PosInf = (if c = 0 then NaN else if 0 < c then PosInf else NegInf)"
| "fscale c NegInf = (if c = 0 then NaN else if 0 < c then NegInf else PosInf)"

subsection \<open>Tensors\<close>

text \<open>A tensor is its shape and its entries in row-major order.\<close>

datatype tensor = Tensor (shape: "nat list") (elems: "real list")

text \<open>\<open>len(t)\<close>: the first dimension; a 0-d tensor has no length.\<close>

definition len_t :: "tensor \<Rightarrow> error + nat" where
  "len_t t = (case shape t of [] \<Rightarrow> Inl TypeError | n # rest \<Rightarrow> Inr n)"

text \<open>\<open>t[:k]\<close>: the first \<open>k\<close> rows (all of them when there are fewer).\<close>

definition slice0 :: "nat \<Rightarrow> tensor \<Rightarrow> error + tensor" where
  "slice0 k t =
     (case shape t of
        [] \<Rightarrow> Inl IndexError
      | n # rest \<Rightarrow> Inr (Tensor (min k n # rest) (take (min k n * prod_list rest) (elems t))))"

definition tmap :: "(real \<Rightarrow> real) \<Rightarrow> tensor \<Rightarrow> tensor" where
  "tmap f t = Tensor (shape t) (map f (elems t))"

definition sigmoid :: "real \<Rightarrow> real" where
  "sigmoid x = 1 / (1 + exp (- x))"

text \<open>
  \<open>a.add(b)\<close>. PyTorch broadcasts two different but compatible shapes and raises
  RuntimeError for incompatible ones. The logits of the groups of one batch always have
  one shape, and only that case is modelled: any two different shapes are reported as
  RuntimeError here.
\<close>

definition tadd :: "tensor \<Rightarrow> tensor \<Rightarrow> error + tensor" where
  "tadd a b =
     (if shape a = shape b then Inr (Tensor (shape a) (map2 (+) (elems a) (elems b)))
      else Inl RuntimeError)"

text \<open>\<open>t.squeeze(-1)\<close>: drops the last dimension when it is 1, otherwise does nothing.\<close>

definition squeeze_last :: "tensor \<Rightarrow> tensor" where
  "squeeze_last t =
     (if shape t \<noteq> [] \<and> last (shape t) = 1 then Tensor (butlast (shape t)) (elems t) else t)"

text \<open>\<open>t.shape[i]\<close>.\<close>

definition shape_at :: "tensor \<Rightarrow> nat \<Rightarrow> error + nat" where
  "shape_at t i = (if i < length (shape t) then Inr (shape t ! i) else Inl IndexError)"

text \<open>\<open>labels.repeat_interleave(r)\<close> on a 1-d tensor: each entry \<open>r\<close> times in a row.\<close>

definition repeat_interleave :: "real list \<Rightarrow> nat \<Rightarrow> real list" where
  "repeat_interleave ls r = concat (map (replicate r) ls)"

definition flatten :: "tensor \<Rightarrow> tensor" where
  "flatten t = Tensor [prod_list (shape t)] (elems t)"

text \<open>
  \<open>torch.stack(ts, dim=-1)\<close>: the tensors must be non-empty in number and of one shape;
  entry \<open>i\<close> of the result holds the \<open>i\<close>-th entries of all of them side by side.
\<close>

definition stack_last :: "tensor list \<Rightarrow> error + tensor" where
  "stack_last ts =
     (case ts of
        [] \<Rightarrow> Inl RuntimeError
      | t # rest \<Rightarrow>
          if \<forall>u \<in> set rest. shape u = shape t
          then Inr (Tensor (shape t @ [length ts]) (concat (transpose (map elems ts))))
          else Inl RuntimeError)"

function chunks :: "nat \<Rightarrow> 'a list \<Rightarrow> 'a list list" where
  "chunks n xs = (if n = 0 \<or> xs = [] then [] else take n xs # chunks n (drop n xs))"
  by pat_completeness auto
termination
  by (relation "measure (\<lambda>(n, xs). length xs)") auto

declare chunks.simps [simp del]

text \<open>The largest entry of a non-empty list, scanned from the left.\<close>

definition list_max :: "real list \<Rightarrow> real" where
  "list_max c = fold max (tl c) (hd c)"

text \<open>
  The values of \<open>torch.max(t, dim=-1)\<close>: the maximum over the last dimension, which must
  not be empty.
\<close>

definition max_last :: "tensor \<Rightarrow> error + tensor" where
  "max_last t =
     (case shape t of
        [] \<Rightarrow> Inr t
      | n # rest \<Rightarrow>
          if last (shape t) = 0 then Inl IndexError
          else Inr (Tensor (butlast (shape t)) (map list_max (chunks (last (shape t)) (elems t)))))"

text \<open>
  \<open>t.unbind(d)\<close>: the slices of \<open>t\<close> along dimension \<open>d\<close>; a tensor with fewer than
  \<open>d + 1\<close> dimensions raises IndexError.
\<close>

definition unbind :: "nat \<Rightarrow> tensor \<Rightarrow> error + tensor list" where
  "unbind d t =
     (if length (shape t) \<le> d then Inl IndexError
      else
        let outer = prod_list (take d (shape t));
            n = shape t ! d;
            inner = prod_list (drop (Suc d) (shape t))
        in Inr (map (\<lambda>k. Tensor (take d (shape t) @ drop (Suc d) (shape t))
                          (concat (map (\<lambda>out. take inner (drop ((out * n + k) * inner) (elems t)))
                                       [0..<outer])))
                    [0..<n]))"

subsection \<open>Configuration, collaborators, reporter state\<close>

record config =
  activation :: string
  use_bias :: bool
  hidden_size :: "nat option"
  init :: string
  loss_dict :: "(string \<times> real) list"
  num_layers :: int
  pre_ln :: bool
  supervised_weight :: real
  lr :: real
  num_epochs :: int
  num_tries :: int
  optimizer :: string
  weight_decay :: real

text \<open>A module of the probe stack, with the tensors it owns.\<close>

datatype layer =
  Linear (lin_in: nat) (lin_out: nat) (weight: tensor) (lbias: "tensor option")
| LayerNorm nat
| Act string

text \<open>
  The learnable parameters as \<open>self.parameters()\<close> lists them: the two Platt scaling
  parameters, then the tensors of the probe.
\<close>

record params =
  p_bias :: tensor
  p_scale :: tensor
  p_probe :: "layer list"

text \<open>
  A step of an optimizer that works through a closure (\<open>torch.optim.LBFGS.step\<close>): it
  reads the parameters, overwrites them, or calls the closure and continues with the
  float the closure returned and the gradients it left behind. The tree is well-founded,
  so every run ends.
\<close>

datatype optprog =
  Done
| Get "params \<Rightarrow> optprog"
| Put params optprog
| Call "pyfloat \<Rightarrow> params \<Rightarrow> optprog"

text \<open>
  The collaborators. State of a foreign module (the statistics of a Normalizer, the
  buffers of the projector, the moments of Adam, the weights of the classifier) is a
  list of tensors; the global random number generator is the stream \<open>randn\<close> of its
  samples and a position in it.
\<close>

record env =
  normalizer_new :: "nat \<Rightarrow> tensor list"
  normalizer_fit :: "tensor list \<Rightarrow> tensor \<Rightarrow> tensor list"
  normalizer_apply :: "tensor list \<Rightarrow> tensor \<Rightarrow> tensor"
  spectral_new :: "nat \<Rightarrow> tensor list"
  spectral_apply :: "tensor list \<Rightarrow> tensor \<Rightarrow> tensor"
  linear_new :: "nat \<Rightarrow> nat \<Rightarrow> nat \<Rightarrow> bool \<Rightarrow> layer \<times> nat"
  linear_reset :: "nat \<Rightarrow> layer \<Rightarrow> layer \<times> nat"
  randn :: "nat \<Rightarrow> real"
  sequential :: "layer list \<Rightarrow> tensor \<Rightarrow> tensor"
  LOSSES :: "string \<Rightarrow> (tensor list \<Rightarrow> real \<Rightarrow> pyfloat) option"
  bce :: "real list \<Rightarrow> real list \<Rightarrow> pyfloat"
  autograd :: "(params \<Rightarrow> error + pyfloat) \<Rightarrow> params \<Rightarrow> params"
  adamw_new :: "real \<Rightarrow> real \<Rightarrow> params \<Rightarrow> tensor list"
  adamw_step :: "tensor list \<Rightarrow> params \<Rightarrow> params \<Rightarrow> tensor list \<times> params"
  lbfgs_step :: "int \<Rightarrow> optprog"
  pca_seed :: "tensor list \<Rightarrow> nat \<Rightarrow> error + tensor"
  clf_fit :: "nat \<Rightarrow> tensor \<Rightarrow> real list \<Rightarrow> real \<Rightarrow> tensor list"
  clf_apply :: "tensor list \<Rightarrow> tensor \<Rightarrow> tensor"
  roc_auc :: "real list \<Rightarrow> real list \<Rightarrow> real"

record reporter =
  in_features :: nat
  bias :: tensor
  scale :: tensor
  norms :: "tensor list list"
  norm :: "tensor list"
  probe :: "layer list"
  rng :: nat

definition parameters :: "reporter \<Rightarrow> params" where
  "parameters s = \<lparr>p_bias = bias s, p_scale = scale s, p_probe = probe s\<rparr>"

definition set_parameters :: "params \<Rightarrow> reporter \<Rightarrow> reporter" where
  "set_parameters p s = s\<lparr>bias := p_bias p, scale := p_scale p, probe := p_probe p\<rparr>"

text \<open>The tensors of the probe, layer by layer: weight, then bias when there is one.\<close>

fun layer_tensors :: "layer \<Rightarrow> tensor list" where
  "layer_tensors (Linear i out w b) = w # (case b of None \<Rightarrow> [] | Some t \<Rightarrow> [t])"
| "layer_tensors (LayerNorm n) = []"
| "layer_tensors (Act a) = []"

definition param_tensors :: "reporter \<Rightarrow> tensor list" where
  "param_tensors s = bias s # scale s # concat (map layer_tensors (probe s))"

subsection \<open>Forward pass\<close>

text \<open>
  What is passed to \<open>self(...)\<close>: the training loops pass a tensor, and in one place the
  whole list of group tensors.
\<close>

datatype pyarg = ATensor tensor | AList "tensor list"

text \<open>
  Modelled from the spec: the projector \<open>SpectralNorm\<close> is not part of the file. The
  spec gives it the contract "callable tensor to tensor": on a tensor it returns the
  tensor \<open>spectral_apply\<close> computes, and an argument that is a Python list and not a
  tensor is rejected with TypeError.
\<close>

definition call_norm :: "env \<Rightarrow> reporter \<Rightarrow> pyarg \<Rightarrow> error + tensor" where
  "call_norm E s a =
     (case a of
        ATensor x \<Rightarrow> Inr (spectral_apply E (norm s) x)
      | AList xs \<Rightarrow> Inl TypeError)"

text \<open>\<open>forward(x) = self.probe(self.norm(x)).squeeze(-1)\<close>.\<close>

definition forward :: "env \<Rightarrow> reporter \<Rightarrow> pyarg \<Rightarrow> error + tensor" where
  "forward E s a =
     (case call_norm E s a of
        Inl e \<Rightarrow> Inl e
      | Inr projected \<Rightarrow> Inr (squeeze_last (sequential E (probe s) projected)))"

subsection \<open>Loss composition\<close>

text \<open>
  \<open>sum(LOSSES[name](..., coef) for name, coef in loss_dict.items())\<close>: Python's \<open>sum\<close>
  starts from the integer 0; an unregistered name is a KeyError. The result goes through
  \<open>assert_type(Tensor, loss)\<close>, which rejects the integer 0 of an empty sum.
\<close>

fun sum_terms :: "env \<Rightarrow> tensor list \<Rightarrow> (string \<times> real) list \<Rightarrow> pyfloat \<Rightarrow> error + pyfloat" where
  "sum_terms E logits [] acc = Inr acc"
| "sum_terms E logits ((name, coef) # items) acc =
     (case LOSSES E name of
        None \<Rightarrow> Inl KeyError
      | Some f \<Rightarrow> sum_terms E logits items (fadd acc (f logits coef)))"

definition unsupervised_lossm :: "env \<Rightarrow> config \<Rightarrow> tensor list \<Rightarrow> error + pyfloat" where
  "unsupervised_lossm E cfg logits =
     (case sum_terms E logits (loss_dict cfg) (Finite 0) of
        Inl e \<Rightarrow> Inl e
      | Inr l \<Rightarrow> if loss_dict cfg = [] then Inl TypeError else Inr l)"

text \<open>The two-group form hands the registry the pair of logit tensors.\<close>

definition unsupervised_loss :: "env \<Rightarrow> config \<Rightarrow> tensor \<Rightarrow> tensor \<Rightarrow> error + pyfloat" where
  "unsupervised_loss E cfg logit0 logit1 = unsupervised_lossm E cfg [logit0, logit1]"

text \<open>
  \<open>torch.nn.functional.binary_cross_entropy\<close>: ValueError unless input and target have
  the same size.
\<close>

definition binary_cross_entropy :: "env \<Rightarrow> tensor \<Rightarrow> real list \<Rightarrow> error + pyfloat" where
  "binary_cross_entropy E preds target =
     (if length (elems preds) = length target then Inr (bce E (elems preds) target)
      else Inl ValueError)"

text \<open>The last four lines of the supervised branch, the same in both forms.\<close>

definition blend :: "env \<Rightarrow> config \<Rightarrow> tensor \<Rightarrow> real list \<Rightarrow> pyfloat \<Rightarrow> error + pyfloat" where
  "blend E cfg preds labels unsup =
     (case shape_at preds 1 of
        Inl e \<Rightarrow> Inl e
      | Inr v \<Rightarrow>
          let broadcast_labels = repeat_interleave labels v;
              flattened_preds = flatten preds
          in (case binary_cross_entropy E flattened_preds broadcast_labels of
                Inl e \<Rightarrow> Inl e
              | Inr bce_loss \<Rightarrow>
                  Inr (fadd (fscale (supervised_weight cfg) bce_loss)
                            (fscale (1 - supervised_weight cfg) unsup))))"

definition loss :: "env \<Rightarrow> config \<Rightarrow> tensor \<Rightarrow> tensor \<Rightarrow> real list option \<Rightarrow> error + pyfloat" where
  "loss E cfg logit0 logit1 labels =
     (case unsupervised_loss E cfg logit0 logit1 of
        Inl e \<Rightarrow> Inl e
      | Inr unsup \<Rightarrow>
          (case labels of
             Some ls \<Rightarrow>
               (case len_t logit0 of
                  Inl e \<Rightarrow> Inl e
                | Inr n0 \<Rightarrow>
                    if \<not> length ls \<le> n0 then Inl AssertionError
                    else
                      (case slice0 (length ls) logit0 of
                         Inl e \<Rightarrow> Inl e
                       | Inr r0 \<Rightarrow>
                           (case slice0 (length ls) logit1 of
                              Inl e \<Rightarrow> Inl e
                            | Inr r1 \<Rightarrow>
                                (case tadd (tmap sigmoid r0) (tmap (\<lambda>p. 1 - p) (tmap sigmoid r1)) of
                                   Inl e \<Rightarrow> Inl e
                                 | Inr both \<Rightarrow>
                                     blend E cfg (squeeze_last (tmap (\<lambda>p. p * (1 / 2)) both)) ls unsup))))
           | None \<Rightarrow> if supervised_weight cfg > 0 then Inl ValueError else Inr unsup))"

text \<open>\<open>[logit[:num_labels].sigmoid() for logit in logits]\<close>.\<close>

fun sigmoid_rows :: "nat \<Rightarrow> tensor list \<Rightarrow> error + tensor list" where
  "sigmoid_rows k [] = Inr []"
| "sigmoid_rows k (t # ts) =
     (case slice0 k t of
        Inl e \<Rightarrow> Inl e
      | Inr r \<Rightarrow>
          (case sigmoid_rows k ts of
             Inl e \<Rightarrow> Inl e
           | Inr rs \<Rightarrow> Inr (tmap sigmoid r # rs)))"

definition lossm :: "env \<Rightarrow> config \<Rightarrow> tensor list \<Rightarrow> real list option \<Rightarrow> error + pyfloat" where
  "lossm E cfg logits labels =
     (case unsupervised_lossm E cfg logits of
        Inl e \<Rightarrow> Inl e
      | Inr unsup \<Rightarrow>
          (case labels of
             Some ls \<Rightarrow>
               (case logits of
                  [] \<Rightarrow> Inl IndexError
                | first # others \<Rightarrow>
                    (case len_t first of
                       Inl e \<Rightarrow> Inl e
                     | Inr n0 \<Rightarrow>
                         if \<not> length ls \<le> n0 then Inl AssertionError
                         else
                           (case sigmoid_rows (length ls) logits of
                              Inl e \<Rightarrow> Inl e
                            | Inr ps \<Rightarrow>
                                (case stack_last ps of
                                   Inl e \<Rightarrow> Inl e
                                 | Inr stacked_tensors \<Rightarrow>
                                     (case max_last stacked_tensors of
                                        Inl e \<Rightarrow> Inl e
                                      | Inr preds \<Rightarrow> blend E cfg preds ls unsup)))))
           | None \<Rightarrow> if supervised_weight cfg > 0 then Inl ValueError else Inr unsup))"

text \<open>
  The invariant of a configuration the spec states: the loss specification is not empty
  and names registered terms only.
\<close>

definition registered :: "env \<Rightarrow> config \<Rightarrow> bool" where
  "registered E cfg \<longleftrightarrow>
     loss_dict cfg \<noteq> [] \<and> list_all (\<lambda>(name, coef). LOSSES E name \<noteq> None) (loss_dict cfg)"


subsection \<open>Training loops\<close>

text \<open>\<open>self.loss(self(x_neg), self(x_pos), labels)\<close>.\<close>

definition pair_objective ::
  "env \<Rightarrow> config \<Rightarrow> tensor \<Rightarrow> tensor \<Rightarrow> real list option \<Rightarrow> reporter \<Rightarrow> error + pyfloat" where
  "pair_objective E cfg x_neg x_pos labels s =
     (case forward E s (ATensor x_neg) of
        Inl e \<Rightarrow> Inl e
      | Inr logit0 \<Rightarrow>
          (case forward E s (ATensor x_pos) of
             Inl e \<Rightarrow> Inl e
           | Inr logit1 \<Rightarrow> loss E cfg logit0 logit1 labels))"

text \<open>\<open>[self(tense) for tense in x_tensors]\<close>.\<close>

fun forward_each :: "env \<Rightarrow> reporter \<Rightarrow> tensor list \<Rightarrow> error + tensor list" where
  "forward_each E s [] = Inr []"
| "forward_each E s (x # xs) =
     (case forward E s (ATensor x) of
        Inl e \<Rightarrow> Inl e
      | Inr y \<Rightarrow>
          (case forward_each E s xs of
             Inl e \<Rightarrow> Inl e
           | Inr ys \<Rightarrow> Inr (y # ys)))"

text \<open>
  The loss evaluation of the closure of \<open>trainm_loop_lbfgs\<close>:
  \<open>self.lossm([self(tense) for tense in x_tensors], labels)\<close>.
\<close>

definition group_objective ::
  "env \<Rightarrow> config \<Rightarrow> tensor list \<Rightarrow> real list option \<Rightarrow> reporter \<Rightarrow> error + pyfloat" where
  "group_objective E cfg x_tensors labels s =
     (case forward_each E s x_tensors of
        Inl e \<Rightarrow> Inl e
      | Inr correct_tensors \<Rightarrow> lossm E cfg correct_tensors labels)"

text \<open>
  The loss evaluation of \<open>trainm_loop_adam\<close>: \<open>self.lossm(self(x_tensors), labels)\<close>,
  with the list itself as the argument of the forward pass. \<open>lossm\<close> would index and
  iterate what the forward pass returns, a tensor, along its first dimension.
\<close>

definition list_objective ::
  "env \<Rightarrow> config \<Rightarrow> tensor list \<Rightarrow> real list option \<Rightarrow> reporter \<Rightarrow> error + pyfloat" where
  "list_objective E cfg x_tensors labels s =
     (case forward E s (AList x_tensors) of
        Inl e \<Rightarrow> Inl e
      | Inr out \<Rightarrow>
          (case unbind 0 out of
             Inl e \<Rightarrow> Inl e
           | Inr logits \<Rightarrow> lossm E cfg logits labels))"

text \<open>
  The epochs of the Adam loops: evaluate the loss, \<open>loss.backward()\<close>,
  \<open>optimizer.step()\<close>. \<open>l\<close> is the variable \<open>loss\<close>.
\<close>

fun adam_epochs ::
  "env \<Rightarrow> (reporter \<Rightarrow> error + pyfloat) \<Rightarrow> nat \<Rightarrow> tensor list \<Rightarrow> pyfloat \<Rightarrow> reporter
   \<Rightarrow> error + (pyfloat \<times> reporter)" where
  "adam_epochs E obj 0 opt l s = Inr (l, s)"
| "adam_epochs E obj (Suc n) opt l s =
     (case obj s of
        Inl e \<Rightarrow> Inl e
      | Inr l' \<Rightarrow>
          let grads = autograd E (\<lambda>p. obj (set_parameters p s)) (parameters s);
              stepped = adamw_step E opt grads (parameters s)
          in adam_epochs E obj n (fst stepped) l' (set_parameters (snd stepped) s))"


definition trainm_loop_adam ::
  "env \<Rightarrow> config \<Rightarrow> reporter \<Rightarrow> tensor list \<Rightarrow> real list option
   \<Rightarrow> error + (pyfloat \<times> reporter)" where
  "trainm_loop_adam E cfg s x_tensors labels =
     adam_epochs E (list_objective E cfg x_tensors labels) (nat (num_epochs cfg))
       (adamw_new E (lr cfg) (weight_decay cfg) (parameters s)) PosInf s"

text \<open>\<open>param.norm()\<close>: the Euclidean norm of all entries.\<close>

definition tnorm :: "tensor \<Rightarrow> real" where
  "tnorm t = sqrt (sum_list (map (\<lambda>x. x * x) (elems t)))"

text \<open>
  \<open>regularizer = 0.0; for param in self.parameters(): regularizer += weight_decay *
  param.norm() ** 2 / 2\<close>.
\<close>

definition regularizer :: "config \<Rightarrow> reporter \<Rightarrow> real" where
  "regularizer cfg s =
     fold (\<lambda>param r. r + weight_decay cfg * (tnorm param) ^ 2 / 2) (param_tensors s) 0"

definition regularized ::
  "config \<Rightarrow> (reporter \<Rightarrow> error + pyfloat) \<Rightarrow> reporter \<Rightarrow> error + pyfloat" where
  "regularized cfg obj s =
     (case obj s of
        Inl e \<Rightarrow> Inl e
      | Inr l \<Rightarrow> Inr (fadd l (Finite (regularizer cfg s))))"

text \<open>
  The closure of the LBFGS loops. It returns \<open>float(regularized)\<close>, leaves the gradients
  of \<open>regularized\<close> on the parameters, and has assigned the nonlocal variable \<open>loss\<close>:
  the three components of the result, in this order.
\<close>

definition closure ::
  "env \<Rightarrow> config \<Rightarrow> (reporter \<Rightarrow> error + pyfloat) \<Rightarrow> reporter
   \<Rightarrow> error + (pyfloat \<times> params \<times> pyfloat)" where
  "closure E cfg obj s =
     (case obj s of
        Inl e \<Rightarrow> Inl e
      | Inr l \<Rightarrow>
          Inr (fadd l (Finite (regularizer cfg s)),
               autograd E (\<lambda>p. regularized cfg obj (set_parameters p s)) (parameters s),
               l))"

text \<open>
  \<open>optimizer.step(closure)\<close>: the run of the optimizer's program on the pair of the
  variable \<open>loss\<close> and the reporter. An exception of the closure ends the run.
\<close>

primrec run_opt ::
  "env \<Rightarrow> config \<Rightarrow> (reporter \<Rightarrow> error + pyfloat) \<Rightarrow> optprog \<Rightarrow> pyfloat \<times> reporter
   \<Rightarrow> error + (pyfloat \<times> reporter)" where
  "run_opt E cfg obj Done st = Inr st"
| "run_opt E cfg obj (Get k) st = run_opt E cfg obj (k (parameters (snd st))) st"
| "run_opt E cfg obj (Put p k) st = run_opt E cfg obj k (fst st, set_parameters p (snd st))"
| "run_opt E cfg obj (Call k) st =
     (case closure E cfg obj (snd st) of
        Inl e \<Rightarrow> Inl e
      | Inr r \<Rightarrow> run_opt E cfg obj (k (fst r) (fst (snd r))) (snd (snd r), snd st))"

definition train_loop_lbfgs ::
  "env \<Rightarrow> config \<Rightarrow> reporter \<Rightarrow> tensor \<Rightarrow> tensor \<Rightarrow> real list option
   \<Rightarrow> error + (pyfloat \<times> reporter)" where
  "train_loop_lbfgs E cfg s x_neg x_pos labels =
     run_opt E cfg (pair_objective E cfg x_neg x_pos labels) (lbfgs_step E (num_epochs cfg))
       (PosInf, s)"

text \<open>\<open>x_tensors[0].dtype\<close> needs a first group.\<close>

definition trainm_loop_lbfgs ::
  "env \<Rightarrow> config \<Rightarrow> reporter \<Rightarrow> tensor list \<Rightarrow> real list option
   \<Rightarrow> error + (pyfloat \<times> reporter)" where
  "trainm_loop_lbfgs E cfg s x_tensors labels =
     (if x_tensors = [] then Inl IndexError
      else run_opt E cfg (group_objective E cfg x_tensors labels)
             (lbfgs_step E (num_epochs cfg)) (PosInf, s))"

text \<open>
  The reporter states at which a run of the optimizer's program calls the closure, in
  the order of the calls (the run of \<open>run_opt\<close>, recording instead of returning).
\<close>

primrec closure_calls ::
  "env \<Rightarrow> config \<Rightarrow> (reporter \<Rightarrow> error + pyfloat) \<Rightarrow> optprog \<Rightarrow> pyfloat \<times> reporter
   \<Rightarrow> reporter list" where
  "closure_calls E cfg obj Done st = []"
| "closure_calls E cfg obj (Get k) st = closure_calls E cfg obj (k (parameters (snd st))) st"
| "closure_calls E cfg obj (Put p k) st =
     closure_calls E cfg obj k (fst st, set_parameters p (snd st))"
| "closure_calls E cfg obj (Call k) st =
     snd st #
     (case closure E cfg obj (snd st) of
        Inl e \<Rightarrow> []
      | Inr r \<Rightarrow> closure_calls E cfg obj (k (fst r) (fst (snd r))) (snd (snd r), snd st))"


subsection \<open>Construction and initialisation\<close>



text \<open>\<open>layer.reset_parameters()\<close> for every linear layer of the probe.\<close>

fun reset_linear_layers :: "env \<Rightarrow> layer list \<Rightarrow> nat \<Rightarrow> layer list \<times> nat" where
  "reset_linear_layers E [] g = ([], g)"
| "reset_linear_layers E (Linear i out w b # rest) g =
     (let made = linear_reset E g (Linear i out w b);
          others = reset_linear_layers E rest (snd made)
      in (fst made # fst others, snd others))"
| "reset_linear_layers E (l # rest) g =
     (let others = reset_linear_layers E rest g in (l # fst others, snd others))"

fun zero_layer :: "layer \<Rightarrow> layer" where
  "zero_layer (Linear i out w b) = Linear i out (tmap (\<lambda>x. 0) w) (map_option (tmap (\<lambda>x. 0)) b)"
| "zero_layer l = l"

text \<open>
  \<open>reset_parameters\<close>. The spherical scheme draws \<open>in_features + 1\<close> samples and
  divides them by their norm (a draw of zeros, which torch turns into NaN, is outside
  the reals of the model).
\<close>

definition reset_parameters :: "env \<Rightarrow> config \<Rightarrow> reporter \<Rightarrow> error + reporter" where
  "reset_parameters E cfg s =
     (if init cfg = ''spherical'' then
        (if length (probe s) \<noteq> 1 then Inl AssertionError
         else
           (case hd (probe s) of
              Linear i out w b \<Rightarrow>
                let raw = map (\<lambda>j. randn E (rng s + j)) [0..<i + 1];
                    theta = map (\<lambda>x. x / sqrt (sum_list (map (\<lambda>y. y * y) raw))) raw
                in (case b of
                      None \<Rightarrow> Inl AttributeError
                    | Some old \<Rightarrow>
                        Inr (s\<lparr>probe := [Linear i out (Tensor [1, i] (butlast theta))
                                                  (Some (Tensor [1] [last theta]))],
                               rng := rng s + i + 1\<rparr>))
            | _ \<Rightarrow> Inl AttributeError))
      else if init cfg = ''default'' then
        (let made = reset_linear_layers E (probe s) (rng s)
         in Inr (s\<lparr>probe := fst made, rng := snd made\<rparr>))
      else if init cfg = ''zero'' then
        Inr (s\<lparr>bias := tmap (\<lambda>x. 0) (bias s), scale := tmap (\<lambda>x. 0) (scale s),
               probe := map zero_layer (probe s)\<rparr>)
      else if init cfg \<noteq> ''pca'' then Inl ValueError
      else Inr s)"

subsection \<open>Fitting\<close>

text \<open>
  \<open>self.state_dict()\<close>: the registered parameters and buffers. The list \<open>self.norms\<close>
  is a plain Python list and not part of it. \<open>deepcopy\<close> makes the snapshot a value
  of its own, which a value of HOL is.
\<close>

record state_dict =
  sd_bias :: tensor
  sd_scale :: tensor
  sd_norm :: "tensor list"
  sd_probe :: "layer list"

definition get_state_dict :: "reporter \<Rightarrow> state_dict" where
  "get_state_dict s = \<lparr>sd_bias = bias s, sd_scale = scale s, sd_norm = norm s, sd_probe = probe s\<rparr>"

definition load_state_dict :: "state_dict \<Rightarrow> reporter \<Rightarrow> reporter" where
  "load_state_dict d s = s\<lparr>bias := sd_bias d, scale := sd_scale d, norm := sd_norm d, probe := sd_probe d\<rparr>"

text \<open>\<open>for i in range(4): self.norms[i].fit(x_tensors[i])\<close>.\<close>

fun fit_norms ::
  "env \<Rightarrow> nat list \<Rightarrow> tensor list list \<Rightarrow> tensor list \<Rightarrow> error + tensor list list" where
  "fit_norms E [] ns xs = Inr ns"
| "fit_norms E (i # rest) ns xs =
     (if i < length ns \<and> i < length xs
      then fit_norms E rest (ns[i := normalizer_fit E (ns ! i) (xs ! i)]) xs
      else Inl IndexError)"

text \<open>\<open>[self.norms[i](x_tensors[i]) for i in range(len(x_tensors))]\<close>.\<close>

fun apply_norms ::
  "env \<Rightarrow> nat list \<Rightarrow> tensor list list \<Rightarrow> tensor list \<Rightarrow> error + tensor list" where
  "apply_norms E [] ns xs = Inr []"
| "apply_norms E (i # rest) ns xs =
     (if i < length ns \<and> i < length xs
      then (case apply_norms E rest ns xs of
              Inl e \<Rightarrow> Inl e
            | Inr ys \<Rightarrow> Inr (normalizer_apply E (ns ! i) (xs ! i) # ys))
      else Inl IndexError)"

text \<open>
  The lines of \<open>fit\<close> before the restarts: unbind the groups, print the shape of the
  first one, fit the four normalizers, normalize every group.
\<close>

definition normalize_groups ::
  "env \<Rightarrow> reporter \<Rightarrow> tensor \<Rightarrow> error + (tensor list \<times> reporter)" where
  "normalize_groups E s hiddens =
     (case unbind 2 hiddens of
        Inl e \<Rightarrow> Inl e
      | Inr x_tensors \<Rightarrow>
          if x_tensors = [] then Inl IndexError
          else
            (case fit_norms E [0..<4] (norms s) x_tensors of
               Inl e \<Rightarrow> Inl e
             | Inr ns \<Rightarrow>
                 (case apply_norms E [0..<length x_tensors] ns x_tensors of
                    Inl e \<Rightarrow> Inl e
                  | Inr normalized \<Rightarrow> Inr (normalized, s\<lparr>norms := ns\<rparr>))))"

text \<open>
  The \<open>pca\<close> seeding of a restart: the weight row computed from the groups (three
  torch calls, a parameter of the model), assigned to \<open>self.probe[0].weight.data\<close>.
\<close>

definition seed_pca :: "env \<Rightarrow> tensor list \<Rightarrow> nat \<Rightarrow> reporter \<Rightarrow> error + reporter" where
  "seed_pca E x_tensors i s =
     (case pca_seed E x_tensors i of
        Inl e \<Rightarrow> Inl e
      | Inr v \<Rightarrow>
          (case probe s of
             Linear n out w b # rest \<Rightarrow> Inr (s\<lparr>probe := Linear n out v b # rest\<rparr>)
           | _ \<Rightarrow> Inl AttributeError))"

text \<open>One round of the loop of \<open>fit\<close>, up to the loss its training loop returns.\<close>

definition run_restart ::
  "env \<Rightarrow> config \<Rightarrow> tensor list \<Rightarrow> real list option \<Rightarrow> nat \<Rightarrow> reporter
   \<Rightarrow> error + (pyfloat \<times> reporter)" where
  "run_restart E cfg x_tensors labels i s =
     (case reset_parameters E cfg s of
        Inl e \<Rightarrow> Inl e
      | Inr s1 \<Rightarrow>
          (case (if init cfg = ''pca'' then seed_pca E x_tensors i s1 else Inr s1) of
             Inl e \<Rightarrow> Inl e
           | Inr s2 \<Rightarrow>
               if optimizer cfg = ''lbfgs'' then trainm_loop_lbfgs E cfg s2 x_tensors labels
               else if optimizer cfg = ''adam'' then trainm_loop_adam E cfg s2 x_tensors labels
               else Inl ValueError))"

text \<open>
  The loop \<open>for i in range(self.config.num_tries)\<close> with the variables \<open>best_loss\<close>
  and \<open>best_state\<close> (the empty dictionary is \<open>None\<close>).
\<close>

fun fit_restarts ::
  "env \<Rightarrow> config \<Rightarrow> tensor list \<Rightarrow> real list option \<Rightarrow> nat list \<Rightarrow> reporter
   \<Rightarrow> pyfloat \<times> state_dict option \<Rightarrow> error + ((pyfloat \<times> state_dict option) \<times> reporter)" where
  "fit_restarts E cfg x_tensors labels [] s best = Inr (best, s)"
| "fit_restarts E cfg x_tensors labels (i # rest) s best =
     (case run_restart E cfg x_tensors labels i s of
        Inl e \<Rightarrow> Inl e
      | Inr r \<Rightarrow>
          fit_restarts E cfg x_tensors labels rest (snd r)
            (if float_lt (fst r) (fst best) then (fst r, Some (get_state_dict (snd r))) else best))"

text \<open>
  \<open>fit\<close>: the returned loss and the reporter it leaves. Loading an empty dictionary
  is an error of \<open>load_state_dict\<close> (missing keys, a RuntimeError).
\<close>

definition fit ::
  "env \<Rightarrow> config \<Rightarrow> reporter \<Rightarrow> tensor \<Rightarrow> real list option \<Rightarrow> error + (pyfloat \<times> reporter)" where
  "fit E cfg s hiddens labels =
     (case normalize_groups E s hiddens of
        Inl e \<Rightarrow> Inl e
      | Inr prepared \<Rightarrow>
          (case fit_restarts E cfg (fst prepared) labels [0..<nat (num_tries cfg)]
                  (snd prepared) (PosInf, None) of
             Inl e \<Rightarrow> Inl e
           | Inr done \<Rightarrow>
               if \<not> isfinite (fst (fst done)) then Inl RuntimeError
               else
                 (case snd (fst done) of
                    None \<Rightarrow> Inl RuntimeError
                  | Some best_state \<Rightarrow>
                      Inr (fst (fst done), load_state_dict best_state (snd done)))))"

text \<open>
  The losses the restarts return and the reporter each restart leaves, in order: the
  same rounds as \<open>fit_restarts\<close>, without the selection.
\<close>

fun restart_trace ::
  "env \<Rightarrow> config \<Rightarrow> tensor list \<Rightarrow> real list option \<Rightarrow> nat list \<Rightarrow> reporter
   \<Rightarrow> error + (pyfloat \<times> reporter) list" where
  "restart_trace E cfg x_tensors labels [] s = Inr []"
| "restart_trace E cfg x_tensors labels (i # rest) s =
     (case run_restart E cfg x_tensors labels i s of
        Inl e \<Rightarrow> Inl e
      | Inr r \<Rightarrow>
          (case restart_trace E cfg x_tensors labels rest (snd r) of
             Inl e \<Rightarrow> Inl e
           | Inr t \<Rightarrow> Inr (r # t)))"


text \<open>One round of the selection of \<open>fit\<close>.\<close>

definition keep_best :: "pyfloat \<times> state_dict option \<Rightarrow> pyfloat \<times> reporter \<Rightarrow> pyfloat \<times> state_dict option" where
  "keep_best best r = (if float_lt (fst r) (fst best) then (fst r, Some (get_state_dict (snd r))) else best)"

text \<open>
  What the variables \<open>best_loss\<close> and \<open>best_state\<close> hold after the rounds with the
  results \<open>t\<close>: a loss no round has beaten, with the snapshot of the first round that
  returned it, or the initial values.
\<close>

definition selected :: "(pyfloat \<times> reporter) list \<Rightarrow> pyfloat \<times> state_dict option \<Rightarrow> bool" where
  "selected t best \<longleftrightarrow>
     fst best \<noteq> NaN
     \<and> (\<forall>r \<in> set t. \<not> float_lt (fst r) (fst best))
     \<and> (case snd best of
          None \<Rightarrow> fst best = PosInf
        | Some d \<Rightarrow> (\<exists>i < length t. fst (t ! i) = fst best \<and> d = get_state_dict (snd (t ! i))
                       \<and> (\<forall>j < i. fst (t ! j) \<noteq> fst best)))"

subsection \<open>Separability diagnostic\<close>











subsection \<open>A small instance\<close>

text \<open>
  An instance of the collaborators on which the functions above can be run: identity
  normalizers and projector, a probe that multiplies its input by the sum of the weights
  of its first linear layer, the single loss term \<open>ccs\<close> that adds up all logits, an
  Adam step and an LBFGS step that halve the weights of the probe (LBFGS calls the
  closure before and after), a classifier whose only weight is the penalty it was fitted
  with, and the pairwise area under the ROC curve.
\<close>

definition halve_layer :: "layer \<Rightarrow> layer" where
  "halve_layer l = (case l of Linear i out w b \<Rightarrow> Linear i out (tmap (\<lambda>x. x / 2) w) b | _ \<Rightarrow> l)"

definition halve_probe :: "params \<Rightarrow> params" where
  "halve_probe p = p\<lparr>p_probe := map halve_layer (p_probe p)\<rparr>"

definition demo_reset :: "nat \<Rightarrow> layer \<Rightarrow> layer \<times> nat" where
  "demo_reset g l =
     (case l of
        Linear i out w b \<Rightarrow>
          Linear i out (tmap (\<lambda>x. if g mod 3 = 0 then 2 else if g mod 3 = 1 then 3 else 1) w) b
      | _ \<Rightarrow> l,
      g + 1)"

definition demo_sequential :: "layer list \<Rightarrow> tensor \<Rightarrow> tensor" where
  "demo_sequential ls x =
     (case ls of
        Linear i out w b # rest \<Rightarrow> tmap (\<lambda>v. sum_list (elems w) * v) x
      | _ \<Rightarrow> x)"

text \<open>
  The area under the ROC curve of scores against 0/1 labels, as the share of the pairs
  of a negative and a positive row that the scores order correctly (a tie counts half;
  1/2 when there is no such pair).
\<close>

definition demo_auroc :: "real list \<Rightarrow> real list \<Rightarrow> real" where
  "demo_auroc ys ps =
     (let neg = map snd (filter (\<lambda>yp. fst yp = 0) (zip ys ps));
          pos = map snd (filter (\<lambda>yp. fst yp \<noteq> 0) (zip ys ps));
          pairs = List.product neg pos
      in if pairs = [] then 1 / 2
         else sum_list (map (\<lambda>ab. if fst ab < snd ab then 1 else if fst ab = snd ab then 1 / 2 else 0)
                            pairs)
              / real (length pairs))"

definition demo_env :: env where
  "demo_env =
     \<lparr>normalizer_new = (\<lambda>n. []),
      normalizer_fit = (\<lambda>st x. [x]),
      normalizer_apply = (\<lambda>st x. x),
      spectral_new = (\<lambda>n. []),
      spectral_apply = (\<lambda>st x. x),
      linear_new = (\<lambda>g i out b.
                      (Linear i out (Tensor [out, i] (replicate (out * i) 1))
                         (if b then Some (Tensor [out] (replicate out 0)) else None),
                       g + 1)),
      linear_reset = demo_reset,
      randn = (\<lambda>i. 1),
      sequential = demo_sequential,
      LOSSES = [''ccs'' \<mapsto> (\<lambda>logits coef. Finite (coef * sum_list (concat (map elems logits))))],
      bce = (\<lambda>ps ys. Finite (sum_list (map2 (\<lambda>p y. (p - y) * (p - y)) ps ys))),
      autograd = (\<lambda>f p. p),
      adamw_new = (\<lambda>l w p. []),
      adamw_step = (\<lambda>opt g p. (opt, halve_probe p)),
      lbfgs_step = (\<lambda>n. Call (\<lambda>v g. Get (\<lambda>p. Put (halve_probe p) (Call (\<lambda>v g. Done))))),
      pca_seed = (\<lambda>xs i. Inl TypeError),
      clf_fit = (\<lambda>d X y l2. [Tensor [1] [l2]]),
      clf_apply = (\<lambda>w X. Tensor [hd (shape X), 1]
                             (map (\<lambda>r. sum_list (concat (map elems w)) * sum_list r)
                                  (chunks (last (shape X)) (elems X)))),
      roc_auc = demo_auroc\<rparr>"

definition demo_cfg :: config where
  "demo_cfg =
     \<lparr>activation = ''gelu'', use_bias = True, hidden_size = None, init = ''default'',
      loss_dict = [(''ccs'', 1)], num_layers = 1, pre_ln = False, supervised_weight = 0,
      lr = 1 / 100, num_epochs = 1, num_tries = 3, optimizer = ''lbfgs'', weight_decay = 2\<rparr>"

text \<open>The reporter \<open>CcsReporter_init demo_env demo_cfg 1 0\<close> builds.\<close>

definition demo_rep :: reporter where
  "demo_rep =
     \<lparr>in_features = 1, bias = Tensor [1] [0], scale = Tensor [1] [1],
      norms = [[], [], [], []], norm = [],
      probe = [Linear 1 1 (Tensor [1, 1] [1]) (Some (Tensor [1] [0]))], rng = 1\<rparr>"

text \<open>A batch of one row and one variant in four groups, with one feature.\<close>

definition demo_hiddens :: tensor where
  "demo_hiddens = Tensor [1, 1, 4, 1] [1, 2, 3, 4]"

text \<open>Its groups, and the reporter with fitted normalizers, probe weight \<open>w\<close> and generator \<open>g\<close>.\<close>

definition demo_groups :: "tensor list" where
  "demo_groups =
     [Tensor [1, 1, 1] [1], Tensor [1, 1, 1] [2], Tensor [1, 1, 1] [3], Tensor [1, 1, 1] [4]]"

text \<open>A contrast pair for the two-group functions.\<close>

definition demo_neg :: tensor where
  "demo_neg = Tensor [1, 1, 1] [1]"

definition demo_pos :: tensor where
  "demo_pos = Tensor [1, 1, 1] [3]"


definition demo_state :: "real \<Rightarrow> nat \<Rightarrow> reporter" where
  "demo_state w g =
     \<lparr>in_features = 1, bias = Tensor [1] [0], scale = Tensor [1] [1],
      norms = map (\<lambda>x. [x]) demo_groups, norm = [],
      probe = [Linear 1 1 (Tensor [1, 1] [w]) (Some (Tensor [1] [0]))], rng = g\<rparr>"

section \<open>Properties\<close>

subsection \<open>The small instance, evaluated\<close>

lemma tnorm_sq: "(tnorm t) ^ 2 = sum_list (map (\<lambda>x. x * x) (elems t))"
  unfolding tnorm_def by (auto intro!: sum_list_nonneg)

lemma demo_env_sel:
  "normalizer_new demo_env = (\<lambda>n. [])"
  "normalizer_fit demo_env = (\<lambda>st x. [x])"
  "normalizer_apply demo_env = (\<lambda>st x. x)"
  "spectral_new demo_env = (\<lambda>n. [])"
  "spectral_apply demo_env = (\<lambda>st x. x)"
  "linear_reset demo_env = demo_reset"
  "sequential demo_env = demo_sequential"
  "LOSSES demo_env = [''ccs'' \<mapsto> (\<lambda>logits coef. Finite (coef * sum_list (concat (map elems logits))))]"
  "autograd demo_env = (\<lambda>f p. p)"
  "adamw_new demo_env = (\<lambda>l w p. [])"
  "adamw_step demo_env = (\<lambda>opt g p. (opt, halve_probe p))"
  "lbfgs_step demo_env = (\<lambda>n. Call (\<lambda>v g. Get (\<lambda>p. Put (halve_probe p) (Call (\<lambda>v g. Done)))))"
  "pca_seed demo_env = (\<lambda>xs i. Inl TypeError)"
  by (simp_all add: demo_env_def)

lemma demo_normalize:
  "normalize_groups demo_env demo_rep demo_hiddens = Inr (demo_groups, demo_state 1 1)"
  by (simp add: normalize_groups_def unbind_def demo_hiddens_def demo_env_sel demo_rep_def
        numeral_eq_Suc demo_groups_def demo_state_def)

lemma demo_objective:
  "group_objective demo_env demo_cfg demo_groups None (demo_state w g) = Inr (Finite (10 * w))"
  by (simp add: group_objective_def forward_def call_norm_def demo_env_sel demo_sequential_def
       tmap_def squeeze_last_def lossm_def unsupervised_lossm_def demo_cfg_def demo_groups_def
       demo_state_def)

lemma demo_regularizer: "regularizer demo_cfg (demo_state w g) = 1 + w * w"
  by (simp add: regularizer_def param_tensors_def tnorm_sq demo_cfg_def demo_state_def)

lemma demo_halve:
  "set_parameters (halve_probe (parameters (demo_state w g))) (demo_state w g) = demo_state (w / 2) g"
  by (simp add: parameters_def set_parameters_def halve_probe_def halve_layer_def tmap_def
        demo_state_def)

lemma demo_closure:
  "closure demo_env demo_cfg (group_objective demo_env demo_cfg demo_groups None) (demo_state w g)
     = Inr (Finite (10 * w + (1 + w * w)), parameters (demo_state w g), Finite (10 * w))"
  by (simp add: closure_def demo_objective demo_regularizer demo_env_sel)

lemma demo_groups_nonempty: "demo_groups \<noteq> []"
  by (simp add: demo_groups_def)

lemma demo_lbfgs:
  "trainm_loop_lbfgs demo_env demo_cfg (demo_state w g) demo_groups None
     = Inr (Finite (5 * w), demo_state (w / 2) g)"
  by (simp add: trainm_loop_lbfgs_def demo_groups_nonempty demo_env_sel demo_closure demo_halve)

lemma demo_reset_params:
  "reset_parameters demo_env demo_cfg (demo_state w g)
     = Inr (demo_state (if g mod 3 = 0 then 2 else if g mod 3 = 1 then 3 else 1) (g + 1))"
  by (simp add: reset_parameters_def demo_cfg_def demo_env_sel demo_reset_def tmap_def demo_state_def)

lemma demo_cfg_sel: "init demo_cfg = ''default''" "optimizer demo_cfg = ''lbfgs''" "num_tries demo_cfg = 3"
  by (simp_all add: demo_cfg_def)

lemma demo_restart:
  "run_restart demo_env demo_cfg demo_groups None i (demo_state w g)
     = Inr (Finite (5 * (if g mod 3 = 0 then 2 else if g mod 3 = 1 then 3 else 1)),
            demo_state ((if g mod 3 = 0 then 2 else if g mod 3 = 1 then 3 else 1) / 2) (g + 1))"
  by (simp add: run_restart_def demo_reset_params demo_cfg_sel demo_lbfgs)

lemma range3: "[0..<3] = [0, 1, 2::nat]"
  by (simp add: upt_rec)

lemma demo_trace:
  "restart_trace demo_env demo_cfg demo_groups None [0..<nat (num_tries demo_cfg)] (demo_state 1 1)
     = Inr [(Finite 15, demo_state (3 / 2) 2), (Finite 5, demo_state (1 / 2) 3), (Finite 10, demo_state 1 4)]"
  by (simp add: demo_cfg_sel range3 demo_restart) (simp add: eval_nat_numeral)


lemma demo_fit:
  "fit demo_env demo_cfg demo_rep demo_hiddens None
     = Inr (Finite 5, demo_state (1 / 2) 4)"
  apply (simp add: fit_def demo_normalize demo_cfg_sel range3 demo_restart)
  apply (simp add: load_state_dict_def get_state_dict_def demo_state_def eval_nat_numeral)
  done

subsection \<open>Loss composition without labels\<close>

lemma sum_terms_registered:
  "list_all (\<lambda>(name, coef). LOSSES E name \<noteq> None) items
   \<Longrightarrow> \<exists>u. sum_terms E logits items acc = Inr u"
  by (induction items arbitrary: acc) auto

lemma unsupervised_lossm_registered:
  "registered E cfg \<Longrightarrow> \<exists>u. unsupervised_lossm E cfg logits = Inr u"
  using sum_terms_registered [of E "loss_dict cfg" logits "Finite 0"]
  by (auto simp: registered_def unsupervised_lossm_def)

text \<open>
  Claim C7. For a configuration whose loss specification is not empty and names
  registered terms, and for logits of any shape: without labels, \<open>loss\<close> and \<open>lossm\<close>
  raise ValueError when the supervised weight is greater than 0, and otherwise (in
  particular for the weight 0) return the unsupervised loss, which is a value and not an
  exception.
\<close>

theorem loss_without_labels:
  assumes "registered E cfg"
  shows "\<exists>u um. unsupervised_loss E cfg logit0 logit1 = Inr u
           \<and> unsupervised_lossm E cfg logits = Inr um
           \<and> loss E cfg logit0 logit1 None
               = (if 0 < supervised_weight cfg then Inl ValueError else Inr u)
           \<and> lossm E cfg logits None
               = (if 0 < supervised_weight cfg then Inl ValueError else Inr um)"
proof -
  obtain u where u: "unsupervised_loss E cfg logit0 logit1 = Inr u"
    using unsupervised_lossm_registered [OF assms] by (auto simp: unsupervised_loss_def)
  obtain um where um: "unsupervised_lossm E cfg logits = Inr um"
    using unsupervised_lossm_registered [OF assms] by blast
  show ?thesis using u um by (simp add: loss_def lossm_def)
qed

lemma demo_registered: "registered demo_env (demo_cfg\<lparr>supervised_weight := w\<rparr>)"
  by (simp add: registered_def demo_env_def demo_cfg_def)

lemma demo_unsup:
  "unsupervised_lossm demo_env (demo_cfg\<lparr>supervised_weight := w\<rparr>) logits
     = Inr (Finite (sum_list (concat (map elems logits))))"
  by (simp add: unsupervised_lossm_def demo_env_def demo_cfg_def)

theorem loss_without_labels_witness:
  "registered demo_env (demo_cfg\<lparr>supervised_weight := 1 / 2\<rparr>)
   \<and> registered demo_env (demo_cfg\<lparr>supervised_weight := 0\<rparr>)
   \<and> loss demo_env (demo_cfg\<lparr>supervised_weight := 1 / 2\<rparr>)
         (Tensor [1, 2] [1, 2]) (Tensor [1, 2] [3, 4]) None
       = Inl ValueError
   \<and> lossm demo_env (demo_cfg\<lparr>supervised_weight := 1 / 2\<rparr>)
         [Tensor [1, 2] [1, 2], Tensor [1, 2] [3, 4]] None
       = Inl ValueError
   \<and> loss demo_env (demo_cfg\<lparr>supervised_weight := 0\<rparr>)
         (Tensor [1, 2] [1, 2]) (Tensor [1, 2] [3, 4]) None
       = Inr (Finite 10)
   \<and> lossm demo_env (demo_cfg\<lparr>supervised_weight := 0\<rparr>)
         [Tensor [1, 2] [1, 2], Tensor [1, 2] [3, 4]] None
       = Inr (Finite 10)"
  using loss_without_labels [OF demo_registered [of "1 / 2"],
          of "Tensor [1, 2] [1, 2]" "Tensor [1, 2] [3, 4]"
             "[Tensor [1, 2] [1, 2], Tensor [1, 2] [3, 4]]"]
        loss_without_labels [OF demo_registered [of 0],
          of "Tensor [1, 2] [1, 2]" "Tensor [1, 2] [3, 4]"
             "[Tensor [1, 2] [1, 2], Tensor [1, 2] [3, 4]]"]
        demo_registered [of "1 / 2"] demo_registered [of 0]
  by (simp add: demo_unsup unsupervised_loss_def)

subsection \<open>The Platt scaling parameters\<close>

text \<open>
  Claim C9. Whatever values \<open>bias\<close> and \<open>scale\<close> are given, with the rest of the
  reporter fixed, the forward pass returns the same result, and so do the two loss
  evaluations of the training loops (\<open>loss\<close> on the forward outputs of a pair,
  \<open>lossm\<close> on the forward outputs of the groups); the forward pass of a tensor is the
  probe applied to the projected input, with a trailing dimension of size 1 squeezed.
\<close>

theorem platt_parameters_unused:
  "forward E (s\<lparr>bias := b, scale := c\<rparr>) a = forward E s a
   \<and> forward E s (ATensor x)
       = Inr (squeeze_last (sequential E (probe s) (spectral_apply E (norm s) x)))
   \<and> pair_objective E cfg x_neg x_pos labels (s\<lparr>bias := b, scale := c\<rparr>)
       = pair_objective E cfg x_neg x_pos labels s
   \<and> group_objective E cfg x_tensors labels (s\<lparr>bias := b, scale := c\<rparr>)
       = group_objective E cfg x_tensors labels s"
proof -
  have f: "\<And>a. forward E (s\<lparr>bias := b, scale := c\<rparr>) a = forward E s a"
    by (simp add: forward_def call_norm_def split: pyarg.splits)
  have fe: "forward_each E (s\<lparr>bias := b, scale := c\<rparr>) xs = forward_each E s xs" for xs
    by (induction xs) (simp_all add: f cong: sum.case_cong)
  show ?thesis
    by (simp add: f fe pair_objective_def group_objective_def cong: sum.case_cong)
       (simp add: forward_def call_norm_def)
qed

subsection \<open>The groups of a batch and the four normalizers\<close>













subsection \<open>The restarts of fit\<close>

lemma float_lt_irrefl: "\<not> float_lt a a"
  by (cases a) simp_all

lemma float_lt_trans: "float_lt a b \<Longrightarrow> float_lt b c \<Longrightarrow> float_lt a c"
  by (cases a; cases b; cases c) simp_all

lemma float_lt_not_nan: "float_lt a b \<Longrightarrow> a \<noteq> NaN \<and> b \<noteq> NaN"
  by (cases a; cases b) simp_all

lemma float_lt_finite_inf: "isfinite a \<Longrightarrow> float_lt a PosInf"
  by (cases a) simp_all

lemma fit_restarts_trace:
  "fit_restarts E cfg xs labels is s best =
     (case restart_trace E cfg xs labels is s of
        Inl e \<Rightarrow> Inl e
      | Inr t \<Rightarrow> Inr (foldl keep_best best t, if t = [] then s else snd (last t)))"
proof (induction "is" arbitrary: s best)
  case Nil
  then show ?case by simp
next
  case (Cons i rest)
  show ?case
  proof (cases "run_restart E cfg xs labels i s")
    case (Inl e)
    then show ?thesis by simp
  next
    case (Inr r)
    show ?thesis
    proof (cases "restart_trace E cfg xs labels rest (snd r)")
      case (Inl e)
      with Inr Cons.IH [of "snd r"] show ?thesis by simp
    next
      case t: (Inr t)
      with Inr Cons.IH [of "snd r" "keep_best best r"] show ?thesis
        by (simp add: keep_best_def)
    qed
  qed
qed

lemma restart_trace_length:
  "restart_trace E cfg xs labels is s = Inr t \<Longrightarrow> length t = length is"
  by (induction "is" arbitrary: s t) (auto split: sum.splits)

lemma selected_step:
  assumes "selected t best"
  shows "selected (t @ [r]) (keep_best best r)"
proof (cases "float_lt (fst r) (fst best)")
  case True
  have nn: "fst r \<noteq> NaN" using True float_lt_not_nan by blast
  have lower: "\<not> float_lt (fst q) (fst r)" if "q \<in> set t" for q
    using assms that True float_lt_trans unfolding selected_def by blast
  have diff: "fst (t ! j) \<noteq> fst r" if "j < length t" for j
  proof
    assume "fst (t ! j) = fst r"
    with True have "float_lt (fst (t ! j)) (fst best)" by simp
    moreover have "t ! j \<in> set t" using that by simp
    ultimately show False using assms unfolding selected_def by blast
  qed
  show ?thesis
    unfolding selected_def keep_best_def using True nn lower diff
    by (auto simp: float_lt_irrefl nth_append intro!: exI [of _ "length t"])
next
  case False
  show ?thesis
  proof (cases "snd best")
    case None
    with assms False show ?thesis unfolding selected_def keep_best_def by auto
  next
    case (Some d)
    with assms obtain i where i: "i < length t" "fst (t ! i) = fst best"
      "d = get_state_dict (snd (t ! i))" "\<forall>j < i. fst (t ! j) \<noteq> fst best"
      unfolding selected_def by auto
    have "\<exists>i < length (t @ [r]). fst ((t @ [r]) ! i) = fst best
            \<and> d = get_state_dict (snd ((t @ [r]) ! i))
            \<and> (\<forall>j < i. fst ((t @ [r]) ! j) \<noteq> fst best)"
      using i by (intro exI [of _ i]) (auto simp: nth_append)
    with assms False Some show ?thesis unfolding selected_def keep_best_def by auto
  qed
qed

lemma selected_foldl:
  "selected t0 best \<Longrightarrow> selected (t0 @ t) (foldl keep_best best t)"
proof (induction t arbitrary: t0 best)
  case Nil
  then show ?case by simp
next
  case (Cons r t)
  from Cons.IH [OF selected_step [OF Cons.prems, of r]] show ?case by simp
qed

lemma selected_start: "selected [] (PosInf, None)"
  by (simp add: selected_def)

lemma selected_all: "selected t (foldl keep_best (PosInf, None) t)"
  using selected_foldl [OF selected_start, of t] by simp

lemma fit_unfold:
  assumes "normalize_groups E s hiddens = Inr (xs, s0)"
    and "restart_trace E cfg xs labels [0..<nat (num_tries cfg)] s0 = Inr t"
  shows "fit E cfg s hiddens labels =
           (if \<not> isfinite (fst (foldl keep_best (PosInf, None) t)) then Inl RuntimeError
            else case snd (foldl keep_best (PosInf, None) t) of
                   None \<Rightarrow> Inl RuntimeError
                 | Some d \<Rightarrow> Inr (fst (foldl keep_best (PosInf, None) t),
                                 load_state_dict d (if t = [] then s0 else snd (last t))))"
  using assms by (simp add: fit_def fit_restarts_trace split: option.splits)

lemma fit_returns:
  assumes "fit E cfg s hiddens labels = Inr (l, s')"
  shows "\<exists>xs s0 t d. normalize_groups E s hiddens = Inr (xs, s0)
           \<and> restart_trace E cfg xs labels [0..<nat (num_tries cfg)] s0 = Inr t
           \<and> foldl keep_best (PosInf, None) t = (l, Some d) \<and> isfinite l
           \<and> s' = load_state_dict d (if t = [] then s0 else snd (last t))"
proof -
  obtain xs s0 where n: "normalize_groups E s hiddens = Inr (xs, s0)"
    using assms by (cases "normalize_groups E s hiddens") (auto simp: fit_def)
  obtain t where t: "restart_trace E cfg xs labels [0..<nat (num_tries cfg)] s0 = Inr t"
    using assms n
    by (cases "restart_trace E cfg xs labels [0..<nat (num_tries cfg)] s0")
       (auto simp: fit_def fit_restarts_trace)
  show ?thesis
    using assms fit_unfold [OF n t] n t
    by (cases "foldl keep_best (PosInf, None) t") (auto split: if_splits option.splits)
qed

lemma best_finite_iff:
  "isfinite (fst (foldl keep_best (PosInf, None) t))
     \<longleftrightarrow> (\<exists>r \<in> set t. isfinite (fst r)) \<and> (\<forall>r \<in> set t. fst r \<noteq> NegInf)"
proof -
  define best where "best = foldl keep_best (PosInf, None) t"
  have sel: "selected t best" unfolding best_def by (rule selected_all)
  show ?thesis unfolding best_def [symmetric]
  proof
    assume fin: "isfinite (fst best)"
    then obtain d where d: "snd best = Some d"
      using sel unfolding selected_def by (cases "snd best") auto
    then obtain i where i: "i < length t" "fst (t ! i) = fst best"
      using sel unfolding selected_def by auto
    then have "\<exists>r \<in> set t. isfinite (fst r)" using fin by (metis nth_mem)
    moreover have "fst r \<noteq> NegInf" if "r \<in> set t" for r
    proof
      assume "fst r = NegInf"
      then have "float_lt (fst r) (fst best)" using fin by (cases "fst best") simp_all
      then show False using sel that unfolding selected_def by blast
    qed
    ultimately show "(\<exists>r \<in> set t. isfinite (fst r)) \<and> (\<forall>r \<in> set t. fst r \<noteq> NegInf)" by blast
  next
    assume a: "(\<exists>r \<in> set t. isfinite (fst r)) \<and> (\<forall>r \<in> set t. fst r \<noteq> NegInf)"
    then obtain r0 where r0: "r0 \<in> set t" "isfinite (fst r0)" by blast
    have nlt: "\<not> float_lt (fst r0) (fst best)" and nn: "fst best \<noteq> NaN"
      using sel r0 unfolding selected_def by blast+
    have "fst best \<noteq> PosInf" using nlt r0 float_lt_finite_inf by metis
    moreover have "fst best \<noteq> NegInf"
    proof
      assume ni: "fst best = NegInf"
      then obtain d where "snd best = Some d"
        using sel unfolding selected_def by (cases "snd best") auto
      then obtain i where "i < length t" "fst (t ! i) = fst best"
        using sel unfolding selected_def by auto
      then show False using a ni by (metis nth_mem)
    qed
    ultimately show "isfinite (fst best)" using nn by (cases "fst best") simp_all
  qed
qed

text \<open>
  Claim C1. When \<open>fit\<close> returns, all \<open>num_tries\<close> restarts have run; the returned
  loss is the loss one of them returned, no restart returned a loss below it, and the
  state dictionary of the reporter \<open>fit\<close> leaves is the snapshot of the reporter as the
  first restart that returned this loss left it.
\<close>

theorem fit_returns_best_restart:
  assumes "fit E cfg s hiddens labels = Inr (l, s')"
  shows "\<exists>xs s0 t i. normalize_groups E s hiddens = Inr (xs, s0)
           \<and> restart_trace E cfg xs labels [0..<nat (num_tries cfg)] s0 = Inr t
           \<and> length t = nat (num_tries cfg)
           \<and> i < length t \<and> fst (t ! i) = l
           \<and> (\<forall>j < length t. \<not> float_lt (fst (t ! j)) l)
           \<and> (\<forall>j < i. fst (t ! j) \<noteq> l)
           \<and> get_state_dict s' = get_state_dict (snd (t ! i))
           \<and> s' = load_state_dict (get_state_dict (snd (t ! i))) (snd (last t))"
proof -
  from fit_returns [OF assms] obtain xs s0 t d where
    n: "normalize_groups E s hiddens = Inr (xs, s0)" and
    t: "restart_trace E cfg xs labels [0..<nat (num_tries cfg)] s0 = Inr t" and
    b: "foldl keep_best (PosInf, None) t = (l, Some d)" and
    s': "s' = load_state_dict d (if t = [] then s0 else snd (last t))"
    by blast
  have sel: "selected t (l, Some d)" using selected_all [of t] b by simp
  then obtain i where i: "i < length t" "fst (t ! i) = l" "d = get_state_dict (snd (t ! i))"
    "\<forall>j < i. fst (t ! j) \<noteq> l"
    unfolding selected_def by auto
  have low: "\<forall>j < length t. \<not> float_lt (fst (t ! j)) l"
    using sel unfolding selected_def by auto
  have ne: "t \<noteq> []" using i by auto
  have len: "length t = nat (num_tries cfg)" using restart_trace_length [OF t] by simp
  have sd: "get_state_dict s' = get_state_dict (snd (t ! i))"
    using s' i by (simp add: get_state_dict_def load_state_dict_def)
  show ?thesis using n t len i low ne sd s' by auto
qed

theorem fit_returns_best_restart_witness:
  "fit demo_env demo_cfg demo_rep demo_hiddens None = Inr (Finite 5, demo_state (1 / 2) 4)
   \<and> (\<exists>xs s0 t i. normalize_groups demo_env demo_rep demo_hiddens = Inr (xs, s0)
           \<and> restart_trace demo_env demo_cfg xs None [0..<nat (num_tries demo_cfg)] s0 = Inr t
           \<and> length t = nat (num_tries demo_cfg)
           \<and> i < length t \<and> fst (t ! i) = Finite 5
           \<and> (\<forall>j < length t. \<not> float_lt (fst (t ! j)) (Finite 5))
           \<and> (\<forall>j < i. fst (t ! j) \<noteq> Finite 5)
           \<and> get_state_dict (demo_state (1 / 2) 4) = get_state_dict (snd (t ! i))
           \<and> demo_state (1 / 2) 4 = load_state_dict (get_state_dict (snd (t ! i))) (snd (last t)))
   \<and> restart_trace demo_env demo_cfg demo_groups None [0..<nat (num_tries demo_cfg)] (demo_state 1 1)
       = Inr [(Finite 15, demo_state (3 / 2) 2), (Finite 5, demo_state (1 / 2) 3),
              (Finite 10, demo_state 1 4)]"
  using fit_returns_best_restart [OF demo_fit] demo_fit demo_trace by blast

text \<open>
  Claim C2. A loss \<open>fit\<close> returns is finite. Once the groups are normalized and all
  restarts have run, with the results \<open>t\<close>, there are two outcomes only: when some
  restart returned a finite loss and none returned minus infinity (the best loss is
  finite) \<open>fit\<close> returns a finite loss that no restart has beaten; otherwise it
  raises RuntimeError and returns nothing.
\<close>

theorem fit_never_returns_nonfinite:
  "(fit E cfg s hiddens labels = Inr (l, s') \<longrightarrow> isfinite l)
   \<and> (normalize_groups E s hiddens = Inr (xs, s0)
        \<and> restart_trace E cfg xs labels [0..<nat (num_tries cfg)] s0 = Inr t
       \<longrightarrow> (if (\<exists>r \<in> set t. isfinite (fst r)) \<and> (\<forall>r \<in> set t. fst r \<noteq> NegInf)
            then \<exists>l' s''. fit E cfg s hiddens labels = Inr (l', s'') \<and> isfinite l'
                   \<and> (\<forall>r \<in> set t. \<not> float_lt (fst r) l')
            else fit E cfg s hiddens labels = Inl RuntimeError))"
proof (intro conjI impI)
  assume "fit E cfg s hiddens labels = Inr (l, s')"
  from fit_returns [OF this] show "isfinite l" by blast
next
  assume a: "normalize_groups E s hiddens = Inr (xs, s0)
        \<and> restart_trace E cfg xs labels [0..<nat (num_tries cfg)] s0 = Inr t"
  define best where "best = foldl keep_best (PosInf, None) t"
  have sel: "selected t best" unfolding best_def by (rule selected_all)
  have u: "fit E cfg s hiddens labels =
           (if \<not> isfinite (fst best) then Inl RuntimeError
            else case snd best of
                   None \<Rightarrow> Inl RuntimeError
                 | Some d \<Rightarrow> Inr (fst best, load_state_dict d (if t = [] then s0 else snd (last t))))"
    using a fit_unfold [of E s hiddens xs s0 cfg labels t] unfolding best_def by blast
  show "if (\<exists>r \<in> set t. isfinite (fst r)) \<and> (\<forall>r \<in> set t. fst r \<noteq> NegInf)
        then \<exists>l' s''. fit E cfg s hiddens labels = Inr (l', s'') \<and> isfinite l'
               \<and> (\<forall>r \<in> set t. \<not> float_lt (fst r) l')
        else fit E cfg s hiddens labels = Inl RuntimeError"
  proof (cases "isfinite (fst best)")
    case True
    then obtain d where d: "snd best = Some d"
      using sel unfolding selected_def by (cases "snd best") auto
    have "\<forall>r \<in> set t. \<not> float_lt (fst r) (fst best)"
      using sel unfolding selected_def by blast
    with True d u best_finite_iff [of t] show ?thesis unfolding best_def by auto
  next
    case False
    with u best_finite_iff [of t] show ?thesis unfolding best_def by auto
  qed
qed

theorem fit_never_returns_nonfinite_witness:
  "fit demo_env demo_cfg demo_rep demo_hiddens None = Inr (Finite 5, demo_state (1 / 2) 4)
   \<and> isfinite (Finite 5)
   \<and> normalize_groups demo_env demo_rep demo_hiddens = Inr (demo_groups, demo_state 1 1)
   \<and> restart_trace demo_env demo_cfg demo_groups None [0..<nat (num_tries demo_cfg)] (demo_state 1 1)
       = Inr [(Finite 15, demo_state (3 / 2) 2), (Finite 5, demo_state (1 / 2) 3),
              (Finite 10, demo_state 1 4)]
   \<and> restart_trace demo_env (demo_cfg\<lparr>num_tries := 0\<rparr>) demo_groups None
         [0..<nat (num_tries (demo_cfg\<lparr>num_tries := 0\<rparr>))] (demo_state 1 1) = Inr []
   \<and> fit demo_env (demo_cfg\<lparr>num_tries := 0\<rparr>) demo_rep demo_hiddens None = Inl RuntimeError"
  using fit_never_returns_nonfinite [where E = demo_env and cfg = demo_cfg and s = demo_rep
          and hiddens = demo_hiddens and labels = None and l = "Finite 5"
          and s' = "demo_state (1 / 2) 4" and xs = demo_groups and ?s0.0 = "demo_state 1 1"
          and t = "[(Finite 15, demo_state (3 / 2) 2), (Finite 5, demo_state (1 / 2) 3),
                    (Finite 10, demo_state 1 4)]"]
        fit_never_returns_nonfinite [where E = demo_env and cfg = "demo_cfg\<lparr>num_tries := 0\<rparr>"
          and s = demo_rep and hiddens = demo_hiddens and labels = None and l = "Finite 5"
          and s' = "demo_state (1 / 2) 4" and xs = demo_groups and ?s0.0 = "demo_state 1 1"
          and t = "[]"]
        demo_fit demo_normalize demo_trace
  by simp

subsection \<open>The training loops\<close>

lemma fold_add_sum: "fold (\<lambda>p r. r + f p) ps (a::real) = a + sum_list (map f ps)"
  by (induction ps arbitrary: a) simp_all

lemma regularizer_sum:
  "regularizer cfg s
     = (\<Sum>p\<leftarrow>param_tensors s. weight_decay cfg * (\<Sum>x\<leftarrow>elems p. x * x) / 2)"
  by (simp add: regularizer_def fold_add_sum tnorm_sq)

lemma run_opt_last:
  "run_opt E cfg obj prog (c, s) = Inr (l, s') \<Longrightarrow>
   (if closure_calls E cfg obj prog (c, s) = [] then l = c
    else obj (last (closure_calls E cfg obj prog (c, s))) = Inr l)"
proof (induction prog arbitrary: c s)
  case Done
  then show ?case by simp
next
  case (Get k)
  from Get.prems Get.IH [of "k (parameters s)" c s] show ?case by simp
next
  case (Put p k)
  from Put.prems Put.IH [of c "set_parameters p s"] show ?case by simp
next
  case (Call k)
  show ?case
  proof (cases "obj s")
    case (Inl e)
    with Call.prems show ?thesis by (simp add: closure_def)
  next
    case (Inr l0)
    define v where "v = fadd l0 (Finite (regularizer cfg s))"
    define g where "g = autograd E (\<lambda>p. regularized cfg obj (set_parameters p s)) (parameters s)"
    have cl: "closure E cfg obj s = Inr (v, g, l0)"
      using Inr by (simp add: closure_def v_def g_def)
    from Call.prems cl have run: "run_opt E cfg obj (k v g) (l0, s) = Inr (l, s')" by simp
    have r1: "k v \<in> range k" and r2: "k v g \<in> range (k v)" by simp_all
    from Call.IH [OF r1 r2 run] have ih:
      "if closure_calls E cfg obj (k v g) (l0, s) = [] then l = l0
       else obj (last (closure_calls E cfg obj (k v g) (l0, s))) = Inr l" .
    show ?thesis using ih cl Inr by (simp split: if_splits)
  qed
qed



lemma demo_pair_objective:
  "pair_objective demo_env demo_cfg demo_neg demo_pos None (demo_state w g)
     = Inr (Finite (4 * w))"
  by (simp add: pair_objective_def forward_def call_norm_def demo_env_sel demo_sequential_def
       tmap_def squeeze_last_def loss_def unsupervised_loss_def unsupervised_lossm_def demo_cfg_def
       demo_state_def demo_neg_def demo_pos_def)



lemma demo_pair_closure:
  "closure demo_env demo_cfg
     (pair_objective demo_env demo_cfg demo_neg demo_pos None) (demo_state w g)
     = Inr (Finite (4 * w + (1 + w * w)), parameters (demo_state w g), Finite (4 * w))"
  by (simp add: closure_def demo_pair_objective demo_regularizer demo_env_sel)

lemma demo_pair_lbfgs:
  "train_loop_lbfgs demo_env demo_cfg (demo_state w g) demo_neg demo_pos None
     = Inr (Finite (2 * w), demo_state (w / 2) g)"
  by (simp add: train_loop_lbfgs_def demo_env_sel demo_pair_closure demo_halve)

lemma demo_calls:
  "closure_calls demo_env demo_cfg (group_objective demo_env demo_cfg demo_groups None)
     (lbfgs_step demo_env (num_epochs demo_cfg)) (PosInf, demo_state w g)
     = [demo_state w g, demo_state (w / 2) g]"
  by (simp add: demo_env_sel demo_closure demo_halve)

lemma demo_pair_calls:
  "closure_calls demo_env demo_cfg
     (pair_objective demo_env demo_cfg demo_neg demo_pos None)
     (lbfgs_step demo_env (num_epochs demo_cfg)) (PosInf, demo_state w g)
     = [demo_state w g, demo_state (w / 2) g]"
  by (simp add: demo_env_sel demo_pair_closure demo_halve)

text \<open>
  Claim C5. A closure evaluation of the LBFGS loops returns the loss plus the penalty
  that sums, over all parameter tensors, \<open>weight_decay\<close> times the squared norm of
  the tensor divided by 2; the gradients it leaves are those of this regularized value;
  the variable \<open>loss\<close> holds the loss without the penalty. The loss an LBFGS loop
  returns is the loss without the penalty, evaluated at the reporter of the last closure
  call of the run (and infinity when the optimizer never called the closure).
\<close>

theorem lbfgs_closure_regularizes:
  "closure E cfg obj s =
     (case obj s of
        Inl e \<Rightarrow> Inl e
      | Inr l0 \<Rightarrow>
          Inr (fadd l0 (Finite (\<Sum>p\<leftarrow>param_tensors s. weight_decay cfg * (\<Sum>x\<leftarrow>elems p. x * x) / 2)),
               autograd E (\<lambda>p. regularized cfg obj (set_parameters p s)) (parameters s),
               l0))
   \<and> regularized cfg obj s =
       (case obj s of
          Inl e \<Rightarrow> Inl e
        | Inr l0 \<Rightarrow>
            Inr (fadd l0 (Finite (\<Sum>p\<leftarrow>param_tensors s. weight_decay cfg * (\<Sum>x\<leftarrow>elems p. x * x) / 2))))
   \<and> (trainm_loop_lbfgs E cfg s x_tensors labels = Inr (l, s') \<longrightarrow>
        (if closure_calls E cfg (group_objective E cfg x_tensors labels)
              (lbfgs_step E (num_epochs cfg)) (PosInf, s) = []
         then l = PosInf
         else group_objective E cfg x_tensors labels
                (last (closure_calls E cfg (group_objective E cfg x_tensors labels)
                         (lbfgs_step E (num_epochs cfg)) (PosInf, s))) = Inr l))
   \<and> (train_loop_lbfgs E cfg s x_neg x_pos labels = Inr (l2, s2) \<longrightarrow>
        (if closure_calls E cfg (pair_objective E cfg x_neg x_pos labels)
              (lbfgs_step E (num_epochs cfg)) (PosInf, s) = []
         then l2 = PosInf
         else pair_objective E cfg x_neg x_pos labels
                (last (closure_calls E cfg (pair_objective E cfg x_neg x_pos labels)
                         (lbfgs_step E (num_epochs cfg)) (PosInf, s))) = Inr l2))"
proof (intro conjI impI)
  show "closure E cfg obj s =
     (case obj s of
        Inl e \<Rightarrow> Inl e
      | Inr l0 \<Rightarrow>
          Inr (fadd l0 (Finite (\<Sum>p\<leftarrow>param_tensors s. weight_decay cfg * (\<Sum>x\<leftarrow>elems p. x * x) / 2)),
               autograd E (\<lambda>p. regularized cfg obj (set_parameters p s)) (parameters s),
               l0))"
    by (simp add: closure_def regularizer_sum cong: sum.case_cong)
  show "regularized cfg obj s =
       (case obj s of
          Inl e \<Rightarrow> Inl e
        | Inr l0 \<Rightarrow>
            Inr (fadd l0 (Finite (\<Sum>p\<leftarrow>param_tensors s. weight_decay cfg * (\<Sum>x\<leftarrow>elems p. x * x) / 2))))"
    by (simp add: regularized_def regularizer_sum cong: sum.case_cong)
next
  assume "trainm_loop_lbfgs E cfg s x_tensors labels = Inr (l, s')"
  then have "run_opt E cfg (group_objective E cfg x_tensors labels)
               (lbfgs_step E (num_epochs cfg)) (PosInf, s) = Inr (l, s')"
    by (simp add: trainm_loop_lbfgs_def split: if_splits)
  from run_opt_last [OF this]
  show "if closure_calls E cfg (group_objective E cfg x_tensors labels)
              (lbfgs_step E (num_epochs cfg)) (PosInf, s) = []
         then l = PosInf
         else group_objective E cfg x_tensors labels
                (last (closure_calls E cfg (group_objective E cfg x_tensors labels)
                         (lbfgs_step E (num_epochs cfg)) (PosInf, s))) = Inr l" .
next
  assume "train_loop_lbfgs E cfg s x_neg x_pos labels = Inr (l2, s2)"
  then have "run_opt E cfg (pair_objective E cfg x_neg x_pos labels)
               (lbfgs_step E (num_epochs cfg)) (PosInf, s) = Inr (l2, s2)"
    by (simp add: train_loop_lbfgs_def)
  from run_opt_last [OF this]
  show "if closure_calls E cfg (pair_objective E cfg x_neg x_pos labels)
              (lbfgs_step E (num_epochs cfg)) (PosInf, s) = []
         then l2 = PosInf
         else pair_objective E cfg x_neg x_pos labels
                (last (closure_calls E cfg (pair_objective E cfg x_neg x_pos labels)
                         (lbfgs_step E (num_epochs cfg)) (PosInf, s))) = Inr l2" .
qed

theorem lbfgs_closure_regularizes_witness:
  "trainm_loop_lbfgs demo_env demo_cfg (demo_state 2 1) demo_groups None
     = Inr (Finite 10, demo_state 1 1)
   \<and> closure_calls demo_env demo_cfg (group_objective demo_env demo_cfg demo_groups None)
        (lbfgs_step demo_env (num_epochs demo_cfg)) (PosInf, demo_state 2 1)
       = [demo_state 2 1, demo_state 1 1]
   \<and> group_objective demo_env demo_cfg demo_groups None (demo_state 1 1) = Inr (Finite 10)
   \<and> closure demo_env demo_cfg (group_objective demo_env demo_cfg demo_groups None) (demo_state 1 1)
       = Inr (Finite 12, parameters (demo_state 1 1), Finite 10)
   \<and> train_loop_lbfgs demo_env demo_cfg (demo_state 2 1) demo_neg demo_pos None
       = Inr (Finite 4, demo_state 1 1)
   \<and> pair_objective demo_env demo_cfg demo_neg demo_pos None (demo_state 1 1)
       = Inr (Finite 4)"
  using lbfgs_closure_regularizes [where E = demo_env and cfg = demo_cfg
          and obj = "group_objective demo_env demo_cfg demo_groups None" and s = "demo_state 2 1"
          and x_tensors = demo_groups and labels = None and l = "Finite 10" and s' = "demo_state 1 1"
          and x_neg = demo_neg and x_pos = demo_pos
          and ?l2.0 = "Finite 4" and ?s2.0 = "demo_state 1 1"]
        demo_lbfgs [of 2 1] demo_pair_lbfgs [of 2 1] demo_calls [of 2 1] demo_pair_calls [of 2 1]
        demo_objective [of 1 1] demo_pair_objective [of 1 1] demo_closure [of 1 1]
  by simp

lemma list_objective_error: "list_objective E cfg x_tensors labels s = Inl TypeError"
  by (simp add: list_objective_def forward_def call_norm_def)

lemma forward_each_map:
  "forward_each E s xs
     = Inr (map (\<lambda>x. squeeze_last (sequential E (probe s) (spectral_apply E (norm s) x))) xs)"
  by (induction xs) (simp_all add: forward_def call_norm_def)

text \<open>
  Claim C4. The two multi-group loops do not evaluate the same objective. The closure of
  \<open>trainm_loop_lbfgs\<close> applies \<open>lossm\<close> to the forward outputs computed group by
  group. \<open>trainm_loop_adam\<close> passes the list of groups itself to the forward pass:
  its loss evaluation is a TypeError for every reporter, so the loop raises in its first
  epoch and returns (infinity, with the reporter untouched) only when there is no epoch
  to run.
\<close>

theorem trainm_loop_adam_forwards_list:
  "list_objective E cfg x_tensors labels s = Inl TypeError
   \<and> trainm_loop_adam E cfg s x_tensors labels
       = (if 0 < num_epochs cfg then Inl TypeError else Inr (PosInf, s))
   \<and> group_objective E cfg x_tensors labels s
       = lossm E cfg
           (map (\<lambda>x. squeeze_last (sequential E (probe s) (spectral_apply E (norm s) x))) x_tensors)
           labels"
proof -
  have "trainm_loop_adam E cfg s x_tensors labels
       = (if 0 < num_epochs cfg then Inl TypeError else Inr (PosInf, s))"
  proof (cases "nat (num_epochs cfg)")
    case 0
    then show ?thesis by (simp add: trainm_loop_adam_def)
  next
    case (Suc n)
    then have "0 < num_epochs cfg" by simp
    with Suc show ?thesis by (simp add: trainm_loop_adam_def list_objective_error)
  qed
  then show ?thesis
    by (simp add: list_objective_error group_objective_def forward_each_map)
qed




subsection \<open>Loss composition with labels\<close>













text \<open>
  With a single variant the two-group form squeezes the predictions to one dimension and
  then reads \<open>preds.shape[1]\<close>: an IndexError.
\<close>

lemma loss_single_variant:
  assumes "shape logit0 = [n, 1]" "shape logit1 = [n, 1]" "length ls \<le> n"
    and "unsupervised_loss E cfg logit0 logit1 = Inr u"
  shows "loss E cfg logit0 logit1 (Some ls) = Inl IndexError"
  using assms
  by (simp add: loss_def len_t_def slice0_def tmap_def tadd_def squeeze_last_def blend_def
        shape_at_def)






subsection \<open>The separability diagnostic\<close>















end
